theory Spec2Isabelle
  imports Main "HOL-Library.Sublist"
begin

chapter \<open>AutoGoogleForms: extraction, reconciliation and answer building\<close>

text \<open>
  A shallow embedding of the core of the repository: the navigator and the question
  extractor of \<^verbatim>\<open>parser.py\<close>, the option matching of \<^verbatim>\<open>main_gemini.py\<close> and
  \<^verbatim>\<open>main_groq.py\<close> (the two files hold the same functions), and the answer builder of
  \<^verbatim>\<open>form_answer_builder.py\<close>. An exception is a value of type \<open>pyerr\<close>; a function that
  may raise returns a sum with the exception on the left. Functions of the Python library
  that decode text (\<^verbatim>\<open>json.loads\<close>, \<^verbatim>\<open>html.unescape\<close>) are arguments of the model; the
  page markup, the network and the language model are outside it.
\<close>

section \<open>Python strings\<close>

text \<open>
  A Python \<^verbatim>\<open>str\<close> is a sequence of Unicode code points, and the reconciler tests
  code points that do not fit a byte (the en dash U+2013 of its label pattern), so a
  string is modelled as the list of its code points. \<open>ascii\<close> writes an ASCII literal.

  The whitespace class below is the complete set for which \<^verbatim>\<open>str.isspace\<close> and the
  pattern \<^verbatim>\<open>\s\<close> hold. Lower-casing and the digit classes are tabulated for Basic Latin,
  Latin-1 and the Cyrillic capitals; any other code point is taken as caseless and as
  no digit.
\<close>

type_synonym pystr = "nat list"

definition ascii :: "string \<Rightarrow> pystr" where
  "ascii s = map of_char s"

definition py_isspace :: "nat \<Rightarrow> bool" where
  "py_isspace c =
     ((9 \<le> c \<and> c \<le> 13) \<or> (28 \<le> c \<and> c \<le> 32) \<or> c = 133 \<or> c = 160 \<or> c = 5760
      \<or> (8192 \<le> c \<and> c \<le> 8202) \<or> c = 8232 \<or> c = 8233 \<or> c = 8239 \<or> c = 8287
      \<or> c = 12288)"

definition py_strip_chars :: "(nat \<Rightarrow> bool) \<Rightarrow> pystr \<Rightarrow> pystr" where
  "py_strip_chars P s = rev (dropWhile P (rev (dropWhile P s)))"

definition py_strip :: "pystr \<Rightarrow> pystr" where
  "py_strip s = py_strip_chars py_isspace s"

definition lower_cp :: "nat \<Rightarrow> nat" where
  "lower_cp c =
     (if (65 \<le> c \<and> c \<le> 90) \<or> (192 \<le> c \<and> c \<le> 214) \<or> (216 \<le> c \<and> c \<le> 222)
         \<or> (1040 \<le> c \<and> c \<le> 1071) then c + 32
      else if 1024 \<le> c \<and> c \<le> 1039 then c + 80
      else c)"

definition py_lower :: "pystr \<Rightarrow> pystr" where
  "py_lower s = map lower_cp s"

text \<open>
  \<^verbatim>\<open>str.isdigit\<close> accepts the superscript digits U+00B2, U+00B3 and U+00B9 beside the
  decimal digits; \<^verbatim>\<open>int\<close> accepts decimal digits only and raises ValueError on the
  others. CPython also refuses, by default, to convert more than 4300 digits.
\<close>

definition decimal_cp :: "nat \<Rightarrow> bool" where
  "decimal_cp c = (48 \<le> c \<and> c \<le> 57)"

definition digit_cp :: "nat \<Rightarrow> bool" where
  "digit_cp c = (decimal_cp c \<or> c = 178 \<or> c = 179 \<or> c = 185)"

definition py_isdigit :: "pystr \<Rightarrow> bool" where
  "py_isdigit s = (s \<noteq> [] \<and> list_all digit_cp s)"

definition int_max_str_digits :: nat where
  "int_max_str_digits = 4300"

definition py_int :: "pystr \<Rightarrow> int option" where
  "py_int s =
     (if s = [] \<or> \<not> list_all decimal_cp s \<or> int_max_str_digits < length s then None
      else Some (foldl (\<lambda>a c. 10 * a + int (c - 48)) 0 s))"

datatype pyerr = ValueError | IndexError | RuntimeError

section \<open>Answer reconciler (main\_gemini.py, main\_groq.py)\<close>

text \<open>
  \<^verbatim>\<open>_ws.sub(" ", s)\<close>: every maximal run of whitespace becomes one space.
\<close>

function ws_sub :: "pystr \<Rightarrow> pystr" where
  "ws_sub [] = []"
| "ws_sub (c # cs) =
     (if py_isspace c then 32 # ws_sub (dropWhile py_isspace cs) else c # ws_sub cs)"
  by pat_completeness auto
termination
  by (relation "measure length") (auto intro: le_imp_less_Suc length_dropWhile_le)

text \<open>\<^verbatim>\<open>_norm\<close>: strip, lower-case, fold U+00A0 to a space, collapse whitespace.\<close>

definition norm_text :: "pystr \<Rightarrow> pystr" where
  "norm_text s = ws_sub (map (\<lambda>c. if c = 160 then 32 else c) (py_lower (py_strip s)))"

text \<open>
  The ordinal step: a digit string is read as a 1-based position; \<^verbatim>\<open>int\<close> may raise.
\<close>

definition ordinal_step :: "pystr \<Rightarrow> pystr list \<Rightarrow> pyerr + pystr option" where
  "ordinal_step ans options =
     (if py_isdigit ans then
        (case py_int ans of
           None \<Rightarrow> Inl ValueError
         | Some k \<Rightarrow>
             if 1 \<le> k \<and> k \<le> int (length options) then Inr (Some (options ! nat (k - 1)))
             else Inr None)
      else Inr None)"

text \<open>The loop \<^verbatim>\<open>for i, no in enumerate(norm_opts): if ans == no: return options[i]\<close>.\<close>

definition exact_step :: "pystr \<Rightarrow> pystr list \<Rightarrow> pystr list \<Rightarrow> pystr option" where
  "exact_step ans norm_opts options =
     (case find (\<lambda>i. ans = norm_opts ! i) [0..<length norm_opts] of
        Some i \<Rightarrow> Some (options ! i)
      | None \<Rightarrow> None)"

text \<open>
  \<^verbatim>\<open>re.search\<close> with the pattern of a separator (a colon, a hyphen or the en dash
  U+2013), then \<^verbatim>\<open>\s*(.+)$\<close>; the result is group 1. The search takes the leftmost
  separator after which the rest of the pattern matches. After the separator \<^verbatim>\<open>\s*\<close>
  takes as much whitespace as it can and gives it back one character at a time;
  \<^verbatim>\<open>(.+)$\<close> needs a non-empty run without line feed that ends the string (or stands
  before a final line feed).
\<close>

definition label_sep :: "nat \<Rightarrow> bool" where
  "label_sep c = (c = 58 \<or> c = 45 \<or> c = 8211)"

definition match_dot_plus :: "pystr \<Rightarrow> pystr option" where
  "match_dot_plus g =
     (let line = takeWhile (\<lambda>c. c \<noteq> 10) g; rest = dropWhile (\<lambda>c. c \<noteq> 10) g
      in if line \<noteq> [] \<and> (rest = [] \<or> rest = [10]) then Some line else None)"

fun match_tail :: "pystr \<Rightarrow> pystr option" where
  "match_tail [] = match_dot_plus []"
| "match_tail (c # cs) =
     (if py_isspace c then
        (case match_tail cs of Some g \<Rightarrow> Some g | None \<Rightarrow> match_dot_plus (c # cs))
      else match_dot_plus (c # cs))"

fun re_search_label :: "pystr \<Rightarrow> pystr option" where
  "re_search_label [] = None"
| "re_search_label (c # cs) =
     (if label_sep c then
        (case match_tail cs of Some g \<Rightarrow> Some g | None \<Rightarrow> re_search_label cs)
      else re_search_label cs)"

text \<open>
  The characters of the second \<^verbatim>\<open>strip\<close>: the two ASCII quotes and the guillemets
  U+00AB and U+00BB.
\<close>

definition quote_cp :: "nat \<Rightarrow> bool" where
  "quote_cp c = (c = 34 \<or> c = 39 \<or> c = 171 \<or> c = 187)"

text \<open>
  The containment fallback: \<^verbatim>\<open>hits\<close> are the positions whose normalized option contains
  the text or is contained in it; a single hit is the answer.
\<close>

definition hits :: "pystr \<Rightarrow> pystr list \<Rightarrow> nat list" where
  "hits ans norm_opts =
     filter (\<lambda>i. sublist ans (norm_opts ! i) \<or> sublist (norm_opts ! i) ans)
       [0..<length norm_opts]"

definition containment_step :: "pystr \<Rightarrow> pystr list \<Rightarrow> pystr list \<Rightarrow> pystr option" where
  "containment_step ans norm_opts options =
     (case hits ans norm_opts of [i] \<Rightarrow> Some (options ! i) | _ \<Rightarrow> None)"

definition pick_single_option :: "pystr \<Rightarrow> pystr list \<Rightarrow> pyerr + pystr option" where
  "pick_single_option answer_text options =
     (if options = [] then Inr None
      else
        let norm_opts = map norm_text options;
            ans = norm_text answer_text
        in case ordinal_step ans options of
             Inl e \<Rightarrow> Inl e
           | Inr (Some opt) \<Rightarrow> Inr (Some opt)
           | Inr None \<Rightarrow>
               (case exact_step ans norm_opts options of
                  Some opt \<Rightarrow> Inr (Some opt)
                | None \<Rightarrow>
                    (case re_search_label ans of
                       Some g \<Rightarrow>
                         (let ans2 = py_strip_chars quote_cp (py_strip g)
                          in case exact_step ans2 norm_opts options of
                               Some opt \<Rightarrow> Inr (Some opt)
                             | None \<Rightarrow> Inr (containment_step ans2 norm_opts options))
                     | None \<Rightarrow> Inr (containment_step ans norm_opts options))))"








subsection \<open>The specification's wording, for comparison\<close>








section \<open>Form structure extractor (parser.py)\<close>

subsection \<open>Document nodes and the navigator\<close>

text \<open>
  The document is what \<^verbatim>\<open>json.loads\<close> gives for the embedded array: nested lists with
  strings, integers, floats, booleans and null at the leaves. The extractor never looks at
  the value of a float, so \<open>NFloat\<close> carries none. Python's \<^verbatim>\<open>None\<close> is \<open>NNull\<close>.
\<close>

datatype node = NNull | NBool bool | NInt int | NFloat | NStr pystr | NList "node list"

text \<open>
  Python's \<^verbatim>\<open>xs[i]\<close> on a list: an index below zero counts from the end, and an index
  outside the list raises IndexError.
\<close>

definition py_getitem :: "'a list \<Rightarrow> int \<Rightarrow> pyerr + 'a" where
  "py_getitem xs i =
     (if 0 \<le> i \<and> i < int (length xs) then Inr (xs ! nat i)
      else if i < 0 \<and> - int (length xs) \<le> i then Inr (xs ! nat (int (length xs) + i))
      else Inl IndexError)"

text \<open>
  \<^verbatim>\<open>_dig\<close>: the loop over the path, with \<open>cur\<close> as the loop variable.
\<close>

fun dig :: "node \<Rightarrow> int list \<Rightarrow> pyerr + node" where
  "dig cur [] = Inr cur"
| "dig cur (p # path) =
     (case cur of
        NList xs \<Rightarrow>
          if p < 0 \<or> int (length xs) \<le> p then Inr NNull
          else (case py_getitem xs p of Inl e \<Rightarrow> Inl e | Inr v \<Rightarrow> dig v path)
      | _ \<Rightarrow> Inr NNull)"

text \<open>
  \<^verbatim>\<open>_walk_lists\<close>: the generator's output as a list, every list node by its items, in
  depth-first pre-order.
\<close>

fun walk_lists :: "node \<Rightarrow> node list list" where
  "walk_lists (NList xs) = xs # concat (map walk_lists xs)"
| "walk_lists NNull = []"
| "walk_lists (NBool b) = []"
| "walk_lists (NInt i) = []"
| "walk_lists NFloat = []"
| "walk_lists (NStr s) = []"

text \<open>Sequencing of calls that may raise.\<close>

definition bind_err :: "pyerr + 'a \<Rightarrow> ('a \<Rightarrow> pyerr + 'b) \<Rightarrow> pyerr + 'b" where
  "bind_err r f = (case r of Inl e \<Rightarrow> Inl e | Inr v \<Rightarrow> f v)"

subsection \<open>The items root\<close>

text \<open>\<^verbatim>\<open>isinstance(x, str) and x.strip()\<close>.\<close>

fun nonblank_str :: "node \<Rightarrow> bool" where
  "nonblank_str (NStr s) = (py_strip s \<noteq> [])"
| "nonblank_str NNull = False"
| "nonblank_str (NBool b) = False"
| "nonblank_str (NInt i) = False"
| "nonblank_str NFloat = False"
| "nonblank_str (NList xs) = False"

text \<open>\<^verbatim>\<open>isinstance(v, list) and any(isinstance(x, str) and x.strip() for x in v)\<close>.\<close>

fun str_bearing :: "node \<Rightarrow> bool" where
  "str_bearing (NList xs) = list_ex nonblank_str xs"
| "str_bearing NNull = False"
| "str_bearing (NBool b) = False"
| "str_bearing (NInt i) = False"
| "str_bearing NFloat = False"
| "str_bearing (NStr s) = False"

definition str_count :: "node list \<Rightarrow> nat" where
  "str_count node = length (filter str_bearing node)"

text \<open>\<^verbatim>\<open>str_count >= max(2, len(node)//3)\<close>.\<close>

definition enough_strings :: "node list \<Rightarrow> bool" where
  "enough_strings node = (max 2 (length node div 3) \<le> str_count node)"

text \<open>
  The loop of \<^verbatim>\<open>_guess_items_root\<close> over the nodes of the walk, with \<open>best\<close> as the
  loop variable.
\<close>

fun best_root :: "node list list \<Rightarrow> node list \<Rightarrow> node list" where
  "best_root [] best = best"
| "best_root (node # nodes) best =
     (if node = [] then best_root nodes best
      else if enough_strings node \<and> length best < length node then best_root nodes node
      else best_root nodes best)"

definition guess_items_root :: "node \<Rightarrow> pyerr + node list" where
  "guess_items_root data =
     bind_err (dig data [1, 1]) (\<lambda>candidate.
       case candidate of
         NList (x # xs) \<Rightarrow> Inr (x # xs)
       | _ \<Rightarrow>
          (let best = best_root (walk_lists data) []
           in if best \<noteq> [] then Inr best else Inl RuntimeError))"

section \<open>Rendering values as text\<close>

text \<open>\<^verbatim>\<open>str\<close> of an integer: its decimal digits, with a minus sign below zero.\<close>

fun str_nat :: "nat \<Rightarrow> pystr" where
  "str_nat n = (if n < 10 then [48 + n] else str_nat (n div 10) @ [48 + n mod 10])"

declare str_nat.simps [simp del]

definition str_int :: "int \<Rightarrow> pystr" where
  "str_int i = (if i < 0 then 45 # str_nat (nat (- i)) else str_nat (nat i))"

text \<open>
  \<^verbatim>\<open>repr\<close> of a string, which \<^verbatim>\<open>str\<close> of a list uses for its items: double quotes when
  the string has a single quote and no double quote, single quotes otherwise; backslash
  and the chosen quote escaped; tab, line feed and carriage return by letter; the other
  control characters, and the unprintable characters of Latin-1, as \<^verbatim>\<open>\xhh\<close>.
\<close>

definition hex_digit :: "nat \<Rightarrow> nat" where
  "hex_digit d = (if d < 10 then 48 + d else 87 + d)"

definition repr_char :: "nat \<Rightarrow> nat \<Rightarrow> pystr" where
  "repr_char quote c =
     (if c = quote \<or> c = 92 then [92, c]
      else if c = 9 then [92, 116]
      else if c = 10 then [92, 110]
      else if c = 13 then [92, 114]
      else if c < 32 \<or> (127 \<le> c \<and> c \<le> 160) \<or> c = 173
        then [92, 120, hex_digit (c div 16), hex_digit (c mod 16)]
      else [c])"

definition repr_str :: "pystr \<Rightarrow> pystr" where
  "repr_str s =
     (let quote = (if 39 \<in> set s \<and> 34 \<notin> set s then 34 else 39)
      in quote # concat (map (repr_char quote) s) @ [quote])"

text \<open>\<^verbatim>\<open>sep.join(items)\<close>.\<close>

fun join :: "pystr \<Rightarrow> pystr list \<Rightarrow> pystr" where
  "join sep [] = []"
| "join sep [x] = x"
| "join sep (x # y # ys) = x @ sep @ join sep (y # ys)"

section \<open>Questions\<close>

text \<open>
  A question is a dictionary with the keys \<^verbatim>\<open>text\<close> and \<^verbatim>\<open>type\<close> and some of \<^verbatim>\<open>required\<close>,
  \<^verbatim>\<open>choices_or_rows\<close>, \<^verbatim>\<open>columns\<close>, \<^verbatim>\<open>entry_id\<close>, \<^verbatim>\<open>other_allowed\<close>, \<^verbatim>\<open>other_value\<close> and
  \<^verbatim>\<open>other_response_key\<close>. A key that may be missing is an option; \<^verbatim>\<open>other_allowed\<close> is only
  ever set to true, so a missing key is \<open>False\<close>. The key \<^verbatim>\<open>entry_id\<close> is always set, to a
  string or to \<^verbatim>\<open>None\<close>.
\<close>

record question =
  q_text :: pystr
  q_type :: pystr
  required :: "bool option"
  choices_or_rows :: "pystr list option"
  columns :: "pystr list option"
  entry_id :: "pystr option"
  other_allowed :: bool
  other_value :: "pystr option"
  other_response_key :: "pystr option"

definition other_option_sentinel :: pystr where
  "other_option_sentinel = ascii ''__other_option__''"

text \<open>The key \<^verbatim>\<open>f"entry.{eid}"\<close> and its companion for the free text.\<close>

definition entry_key :: "pystr \<Rightarrow> pystr" where
  "entry_key eid = ascii ''entry.'' @ eid"

definition other_key_of :: "pystr \<Rightarrow> pystr" where
  "other_key_of eid = entry_key eid @ ascii ''.other_option_response''"

section \<open>Answer set builder (form\_answer\_builder.py)\<close>

text \<open>
  The values \<open>set_answer\<close> is given: \<^verbatim>\<open>None\<close>, a string or an integer, a list of these, or
  a dictionary with the key \<^verbatim>\<open>__other__\<close> and perhaps a list under \<^verbatim>\<open>__selected__\<close>
  (a \<^verbatim>\<open>__selected__\<close> that is no list is ignored by the code, like a missing one).
\<close>

datatype scalar = SNone | SStr pystr | SInt int

datatype plain = Scalar scalar | PList "scalar list"

datatype pyval = Plain plain | Other scalar "scalar list option"

fun str_scalar :: "scalar \<Rightarrow> pystr" where
  "str_scalar SNone = ascii ''None''"
| "str_scalar (SStr s) = s"
| "str_scalar (SInt i) = str_int i"

fun repr_scalar :: "scalar \<Rightarrow> pystr" where
  "repr_scalar SNone = ascii ''None''"
| "repr_scalar (SStr s) = repr_str s"
| "repr_scalar (SInt i) = str_int i"

definition str_list :: "pystr list \<Rightarrow> pystr" where
  "str_list reprs = [91] @ join (ascii '', '') reprs @ [93]"

fun str_plain :: "plain \<Rightarrow> pystr" where
  "str_plain (Scalar x) = str_scalar x"
| "str_plain (PList xs) = str_list (map repr_scalar xs)"

text \<open>
  What the builder stores for a question: a string, a list of strings, or the record of
  an "other" answer with its free text and perhaps the options selected beside it.
\<close>

datatype answer = AnsStr pystr | AnsList "pystr list" | AnsOther pystr "pystr list option"

text \<open>
  The builder: its mode, the target and the token of the form, the questions by entry
  identifier, and the answers, a dictionary in insertion order.
\<close>

record builder =
  strict :: bool
  action :: pystr
  fbzx :: pystr
  q_by_id :: "pystr \<Rightarrow> question option"
  answers :: "(pystr \<times> answer) list"

text \<open>\<^verbatim>\<open>d[k] = v\<close> on a dictionary in insertion order: a known key keeps its place.\<close>

fun dict_set :: "'k \<Rightarrow> 'v \<Rightarrow> ('k \<times> 'v) list \<Rightarrow> ('k \<times> 'v) list" where
  "dict_set k v [] = [(k, v)]"
| "dict_set k v ((k', v') # kvs) =
     (if k' = k then (k, v) # kvs else (k', v') # dict_set k v kvs)"

text \<open>
  \<^verbatim>\<open>__init__\<close>: the questions with a non-empty entry identifier, a later one replacing an
  earlier one with the same identifier.
\<close>

fun index_questions :: "question list \<Rightarrow> (pystr \<Rightarrow> question option) \<Rightarrow> pystr \<Rightarrow> question option"
  where
  "index_questions [] m = m"
| "index_questions (q # qs) m =
     (case entry_id q of
        None \<Rightarrow> index_questions qs m
      | Some eid \<Rightarrow> if eid = [] then index_questions qs m else index_questions qs (m(eid \<mapsto> q)))"

definition new_builder :: "pystr \<Rightarrow> pystr \<Rightarrow> question list \<Rightarrow> bool \<Rightarrow> builder" where
  "new_builder act token questions strict_mode =
     \<lparr>strict = strict_mode, action = act, fbzx = token,
      q_by_id = index_questions questions Map.empty, answers = []\<rparr>"

definition store :: "builder \<Rightarrow> pystr \<Rightarrow> answer \<Rightarrow> pyerr option \<times> builder" where
  "store b eid a = (None, b\<lparr>answers := dict_set eid a (answers b)\<rparr>)"

text \<open>
  \<^verbatim>\<open>if self.strict: raise ValueError(...)\<close> followed by \<^verbatim>\<open>return\<close>: nothing is stored.
\<close>

definition reject :: "builder \<Rightarrow> pyerr option \<times> builder" where
  "reject b = (if strict b then Some ValueError else None, b)"

definition single_choice_types :: "pystr list" where
  "single_choice_types = [ascii ''multiple_choice'', ascii ''dropdown'', ascii ''choice'']"

text \<open>\<^verbatim>\<open>q.get("choices_or_rows") or []\<close>.\<close>

definition declared_options :: "question \<Rightarrow> pystr list" where
  "declared_options q = (case choices_or_rows q of None \<Rightarrow> [] | Some cs \<Rightarrow> cs)"

text \<open>
  \<open>set_answer\<close> gives the exception it raised, if any, and the builder after the call.
\<close>

definition set_answer :: "builder \<Rightarrow> pystr \<Rightarrow> pyval \<Rightarrow> pyerr option \<times> builder" where
  "set_answer b eid val =
     (case q_by_id b eid of
        None \<Rightarrow> reject b
      | Some q \<Rightarrow>
          let qtype = py_lower (q_type q);
              choices = declared_options q
          in case val of
               Other txt sel \<Rightarrow>
                 store b eid (AnsOther (str_scalar txt) (map_option (map str_scalar) sel))
             | Plain v \<Rightarrow>
                 if qtype \<in> set single_choice_types then
                   (case v of
                      Scalar (SStr s) \<Rightarrow>
                        if s \<in> set choices then store b eid (AnsStr s)
                        else if other_allowed q then store b eid (AnsOther s None)
                        else reject b
                    | _ \<Rightarrow> reject b)
                 else if qtype = ascii ''checkboxes'' then
                   (let vals = (case v of PList xs \<Rightarrow> xs | Scalar x \<Rightarrow> [x]);
                        strs = map str_scalar (filter (\<lambda>x. x \<noteq> SNone) vals);
                        selected = filter (\<lambda>s. s \<in> set choices) strs;
                        others = filter (\<lambda>s. s \<notin> set choices) strs
                    in if others \<noteq> [] then
                         (if other_allowed q then
                            store b eid (AnsOther (join (ascii ''; '') others)
                                           (if selected \<noteq> [] then Some selected else None))
                          else if strict b then (Some ValueError, b)
                          else store b eid (AnsList selected))
                       else store b eid (AnsList selected))
                 else store b eid (AnsStr (str_plain v)))"

text \<open>The pairs of one answer in the loop of \<open>build_pairs\<close>.\<close>

definition entry_pairs :: "builder \<Rightarrow> pystr \<Rightarrow> answer \<Rightarrow> (pystr \<times> pystr) list" where
  "entry_pairs b eid val =
     (let q = q_by_id b eid;
          key = entry_key eid;
          other_key =
            (case q of
               None \<Rightarrow> other_key_of eid
             | Some qq \<Rightarrow>
                 (case other_response_key qq of
                    None \<Rightarrow> other_key_of eid
                  | Some k \<Rightarrow> if k \<noteq> [] then k else other_key_of eid));
          other_value_flag =
            (case q of
               None \<Rightarrow> other_option_sentinel
             | Some qq \<Rightarrow>
                 (case other_value qq of None \<Rightarrow> other_option_sentinel | Some v \<Rightarrow> v));
          qtype = (case q of None \<Rightarrow> [] | Some qq \<Rightarrow> py_lower (q_type qq))
      in case val of
           AnsOther txt sel \<Rightarrow>
             [(key, other_value_flag), (other_key, txt)]
             @ map (\<lambda>s. (key, s)) (case sel of None \<Rightarrow> [] | Some xs \<Rightarrow> xs)
         | AnsList items \<Rightarrow>
             if qtype = ascii ''checkboxes'' then map (\<lambda>i. (key, i)) items
             else [(key, str_list (map repr_str items))]
         | AnsStr s \<Rightarrow> [(key, s)])"

fun pairs_loop ::
  "builder \<Rightarrow> (pystr \<times> answer) list \<Rightarrow> (pystr \<times> pystr) list \<Rightarrow> (pystr \<times> pystr) list" where
  "pairs_loop b [] pairs = pairs"
| "pairs_loop b ((eid, val) # rest) pairs = pairs_loop b rest (pairs @ entry_pairs b eid val)"

definition build_pairs :: "builder \<Rightarrow> pystr \<times> (pystr \<times> pystr) list" where
  "build_pairs b =
     (let pairs = (if fbzx b \<noteq> [] then [(ascii ''fbzx'', fbzx b)] else [])
      in (action b, pairs_loop b (answers b) pairs))"

section \<open>The questions of the extractor (parser.py, continued)\<close>

subsection \<open>The fields of one item\<close>

text \<open>The first element for which \<open>f\<close> finds something: a loop left by \<^verbatim>\<open>break\<close>.\<close>

fun first_some :: "('a \<Rightarrow> 'b option) \<Rightarrow> 'a list \<Rightarrow> 'b option" where
  "first_some f [] = None"
| "first_some f (x # xs) = (case f x of Some y \<Rightarrow> Some y | None \<Rightarrow> first_some f xs)"

text \<open>\<^verbatim>\<open>v.strip()\<close> when \<^verbatim>\<open>isinstance(v, str) and v.strip()\<close>.\<close>

fun stripped_str :: "node \<Rightarrow> pystr option" where
  "stripped_str (NStr s) = (if py_strip s \<noteq> [] then Some (py_strip s) else None)"
| "stripped_str NNull = None"
| "stripped_str (NBool b) = None"
| "stripped_str (NInt i) = None"
| "stripped_str NFloat = None"
| "stripped_str (NList xs) = None"

text \<open>
  The text of an item: the string at path \<^verbatim>\<open>[1]\<close>, else the one at \<^verbatim>\<open>[0, 1]\<close>, else the
  first non-blank string of the first list node of the walk that has one.
\<close>

definition item_text :: "node \<Rightarrow> pyerr + pystr option" where
  "item_text it =
     bind_err (dig it [1]) (\<lambda>a.
       case stripped_str a of
         Some t \<Rightarrow> Inr (Some t)
       | None \<Rightarrow>
           bind_err (dig it [0, 1]) (\<lambda>b.
             case stripped_str b of
               Some t \<Rightarrow> Inr (Some t)
             | None \<Rightarrow> Inr (first_some (first_some stripped_str) (walk_lists it))))"

text \<open>\<^verbatim>\<open>TYPE_MAP\<close>.\<close>

definition type_map :: "int \<Rightarrow> pystr option" where
  "type_map t =
     (if t = 0 then Some (ascii ''short_answer'')
      else if t = 1 then Some (ascii ''paragraph'')
      else if t = 2 then Some (ascii ''multiple_choice'')
      else if t = 3 then Some (ascii ''dropdown'')
      else if t = 4 then Some (ascii ''checkboxes'')
      else if t = 5 then Some (ascii ''linear_scale'')
      else if t = 7 then Some (ascii ''date'')
      else if t = 8 then Some (ascii ''time'')
      else None)"

text \<open>
  \<^verbatim>\<open>isinstance(v, int)\<close>: a Python boolean is an integer too, \<^verbatim>\<open>True\<close> being 1 and
  \<^verbatim>\<open>False\<close> being 0.
\<close>

fun int_of_node :: "node \<Rightarrow> int option" where
  "int_of_node (NInt i) = Some i"
| "int_of_node (NBool b) = Some (if b then 1 else 0)"
| "int_of_node NNull = None"
| "int_of_node NFloat = None"
| "int_of_node (NStr s) = None"
| "int_of_node (NList xs) = None"

fun is_list :: "node \<Rightarrow> bool" where
  "is_list (NList xs) = True"
| "is_list NNull = False"
| "is_list (NBool b) = False"
| "is_list (NInt i) = False"
| "is_list NFloat = False"
| "is_list (NStr s) = False"

text \<open>\<^verbatim>\<open>node and all(isinstance(x, list) for x in node)\<close>, for the items of a list node.\<close>

definition uniform_lists :: "node list \<Rightarrow> bool" where
  "uniform_lists xs = (xs \<noteq> [] \<and> list_all is_list xs)"

text \<open>
  The option an entry \<open>ch\<close> gives: its first item when that is a string, else its second
  item when that is a string, else nothing.
\<close>

fun choice_of :: "node \<Rightarrow> pystr list" where
  "choice_of (NList (NStr s # rest)) = [s]"
| "choice_of (NList (x # NStr s # rest)) = [s]"
| "choice_of ch = []"

definition collect_choices :: "node list \<Rightarrow> pystr list" where
  "collect_choices entries = concat (map choice_of entries)"

text \<open>Truth of a value that is \<^verbatim>\<open>None\<close> or a list, or \<^verbatim>\<open>None\<close> or a string.\<close>

fun truthy :: "'a list option \<Rightarrow> bool" where
  "truthy None = False"
| "truthy (Some xs) = (xs \<noteq> [])"

text \<open>
  The fallback loop of \<^verbatim>\<open>_extract_choices\<close>: the longest list node of lists whose first
  entry holds a non-blank string, the first one among equals.
\<close>

fun best_choice_list :: "node list list \<Rightarrow> node list option \<Rightarrow> node list option" where
  "best_choice_list [] best = best"
| "best_choice_list (node # nodes) best =
     (case node of
        [] \<Rightarrow> best_choice_list nodes best
      | sample # others \<Rightarrow>
          if list_all is_list node \<and> str_bearing sample then
            (case best of
               None \<Rightarrow> best_choice_list nodes (Some node)
             | Some bl \<Rightarrow>
                 if length bl < length node then best_choice_list nodes (Some node)
                 else best_choice_list nodes best)
          else best_choice_list nodes best)"

definition extract_choices :: "node \<Rightarrow> pyerr + (pystr list option \<times> pystr list option)" where
  "extract_choices item =
     bind_err (dig item [4, 0, 1]) (\<lambda>node.
       case (case node of NList xs \<Rightarrow> if uniform_lists xs then Some xs else None
             | _ \<Rightarrow> None) of
         Some xs \<Rightarrow>
           bind_err (dig item [4, 0, 2]) (\<lambda>cols_node.
             let choices = collect_choices xs;
                 cols = (case cols_node of
                           NList cs \<Rightarrow>
                             if uniform_lists cs then Some (collect_choices cs) else None
                         | _ \<Rightarrow> None)
             in Inr (if choices \<noteq> [] then Some choices else None, cols))
       | None \<Rightarrow>
           (case best_choice_list (walk_lists item) None of
              Some bl \<Rightarrow>
                (let choices = collect_choices bl
                 in if choices \<noteq> [] then Inr (Some choices, None) else Inr (None, None))
            | None \<Rightarrow> Inr (None, None)))"

definition question_type :: "node \<Rightarrow> pyerr + pystr" where
  "question_type item =
     bind_err (dig item [3]) (\<lambda>t.
       case (case int_of_node t of Some i \<Rightarrow> type_map i | None \<Rightarrow> None) of
         Some ty \<Rightarrow> Inr ty
       | None \<Rightarrow>
           bind_err (extract_choices item) (\<lambda>(choices, cols).
             if truthy choices \<and> truthy cols then Inr (ascii ''grid'')
             else if truthy choices then Inr (ascii ''choice'')
             else Inr (ascii ''text'')))"

text \<open>
  \<^verbatim>\<open>_is_required\<close>: the items at path \<^verbatim>\<open>[4, 0]\<close> from the last to the first, a boolean at
  once and a list by its last boolean; then the first boolean of the walk.
\<close>

fun bool_of :: "node \<Rightarrow> bool option" where
  "bool_of (NBool b) = Some b"
| "bool_of NNull = None"
| "bool_of (NInt i) = None"
| "bool_of NFloat = None"
| "bool_of (NStr s) = None"
| "bool_of (NList xs) = None"

fun shallow_bool :: "node \<Rightarrow> bool option" where
  "shallow_bool (NBool b) = Some b"
| "shallow_bool (NList vs) = first_some bool_of (rev vs)"
| "shallow_bool NNull = None"
| "shallow_bool (NInt i) = None"
| "shallow_bool NFloat = None"
| "shallow_bool (NStr s) = None"

definition is_required :: "node \<Rightarrow> pyerr + bool option" where
  "is_required item =
     bind_err (dig item [4, 0]) (\<lambda>node.
       case (case node of NList vs \<Rightarrow> first_some shallow_bool (rev vs) | _ \<Rightarrow> None) of
         Some b \<Rightarrow> Inr (Some b)
       | None \<Rightarrow> Inr (first_some (first_some bool_of) (walk_lists item)))"

text \<open>
  \<^verbatim>\<open>_extract_entry_id_from_item_fb\<close>: an integer of at least 10000 is taken for an entry
  identifier (a boolean never is, its value being 0 or 1).
\<close>

fun big_int :: "node \<Rightarrow> pystr option" where
  "big_int (NInt i) = (if 10000 \<le> i then Some (str_int i) else None)"
| "big_int NNull = None"
| "big_int (NBool b) = None"
| "big_int NFloat = None"
| "big_int (NStr s) = None"
| "big_int (NList xs) = None"

fun id_at :: "node \<Rightarrow> pystr option" where
  "id_at (NInt i) = big_int (NInt i)"
| "id_at (NList xs) = first_some big_int xs"
| "id_at NNull = None"
| "id_at (NBool b) = None"
| "id_at NFloat = None"
| "id_at (NStr s) = None"

fun id_paths :: "node \<Rightarrow> int list list \<Rightarrow> pyerr + pystr option" where
  "id_paths item [] = Inr None"
| "id_paths item (path # paths) =
     bind_err (dig item path) (\<lambda>v.
       case id_at v of Some s \<Rightarrow> Inr (Some s) | None \<Rightarrow> id_paths item paths)"

fun longest_id :: "node list \<Rightarrow> pystr option \<Rightarrow> pystr option" where
  "longest_id [] best = best"
| "longest_id (val # vals) best =
     (case big_int val of
        None \<Rightarrow> longest_id vals best
      | Some s \<Rightarrow>
          (case best of
             None \<Rightarrow> longest_id vals (Some s)
           | Some bs \<Rightarrow>
               if length bs < length s then longest_id vals (Some s)
               else longest_id vals best))"

definition extract_entry_id_from_item_fb :: "node \<Rightarrow> pyerr + pystr option" where
  "extract_entry_id_from_item_fb item =
     bind_err (id_paths item [[4, 0, 0], [4, 0, 3, 0], [4, 0, 0, 0], [0]]) (\<lambda>found.
       case found of
         Some s \<Rightarrow> Inr (Some s)
       | None \<Rightarrow> Inr (longest_id (concat (walk_lists item)) None))"

text \<open>
  \<^verbatim>\<open>_normalize\<close>: fold U+00A0 to a space, collapse whitespace, strip, lower-case.
\<close>

definition normalize_text :: "pystr \<Rightarrow> pystr" where
  "normalize_text s =
     py_lower (py_strip (ws_sub (map (\<lambda>c. if c = 160 then 32 else c) s)))"

text \<open>
  \<^verbatim>\<open>match_entry_by_label\<close>, with the label map as a dictionary in insertion order.
\<close>

definition match_entry_by_label :: "(pystr \<times> pystr) list \<Rightarrow> pystr \<Rightarrow> pystr option" where
  "match_entry_by_label label_map qtext =
     (let key = normalize_text qtext
      in case map_of label_map key of
           Some eid \<Rightarrow> Some eid
         | None \<Rightarrow>
             map_option snd
               (find (\<lambda>(k, eid). prefix k key \<or> prefix key k \<or> sublist key k \<or> sublist k key)
                  label_map))"

subsection \<open>The loop over the items\<close>

definition choice_like_types :: "pystr list" where
  "choice_like_types =
     [ascii ''multiple_choice'', ascii ''dropdown'', ascii ''checkboxes'', ascii ''choice'']"

text \<open>
  The last block of the loop body: a blank option of a choice-like question stands for
  the free answer; it is taken out of the options and the question is marked.
\<close>

definition mark_other :: "question \<Rightarrow> question" where
  "mark_other q =
     (if q_type q \<in> set choice_like_types then
        (let choices = declared_options q
         in if list_ex (\<lambda>c. py_strip c = []) choices then
              q\<lparr>choices_or_rows := Some (filter (\<lambda>c. py_strip c \<noteq> []) choices),
                other_allowed := True,
                other_value := Some other_option_sentinel,
                other_response_key :=
                  (if truthy (entry_id q) then Some (other_key_of (the (entry_id q)))
                   else other_response_key q)\<rparr>
            else q)
      else q)"

text \<open>
  The entry identifier of a question: the next one of the list taken from the markup, else
  the one the label map gives for the text, else the one found in the item.
\<close>

definition assign_entry_id ::
  "pystr list \<Rightarrow> (pystr \<times> pystr) list \<Rightarrow> nat \<Rightarrow> node \<Rightarrow> pystr \<Rightarrow> pyerr + pystr option" where
  "assign_entry_id entry_ids label_map eid_idx it qtext =
     (let eid = (if eid_idx < length entry_ids then Some (entry_ids ! eid_idx) else None);
          eid = (if truthy eid then eid else match_entry_by_label label_map qtext)
      in if truthy eid then Inr eid else extract_entry_id_from_item_fb it)"

text \<open>
  The question of an item whose text has been found. \<^verbatim>\<open>html.unescape\<close> belongs to the
  Python library and is a parameter.
\<close>

definition make_question ::
  "(pystr \<Rightarrow> pystr) \<Rightarrow> pystr list \<Rightarrow> (pystr \<times> pystr) list \<Rightarrow> nat \<Rightarrow> node \<Rightarrow> pystr
   \<Rightarrow> pyerr + question" where
  "make_question unescape entry_ids label_map eid_idx it txt =
     bind_err (question_type it) (\<lambda>qtype.
     bind_err (is_required it) (\<lambda>req.
     bind_err (extract_choices it) (\<lambda>(choices, cols).
     bind_err (assign_entry_id entry_ids label_map eid_idx it (unescape txt)) (\<lambda>eid.
       Inr (mark_other
              \<lparr>q_text = unescape txt, q_type = qtype, required = req,
               choices_or_rows = (if truthy choices then choices else None),
               columns = (if truthy cols then cols else None),
               entry_id = eid, other_allowed = False, other_value = None,
               other_response_key = None\<rparr>)))))"

text \<open>
  The loop of \<open>parse\<close> over the items, with the position in the list of entry identifiers
  and the questions found so far as loop variables. An item that is no list, or that has no
  text, is passed over.
\<close>

fun parse_loop ::
  "(pystr \<Rightarrow> pystr) \<Rightarrow> pystr list \<Rightarrow> (pystr \<times> pystr) list \<Rightarrow> node list \<Rightarrow> nat
   \<Rightarrow> question list \<Rightarrow> pyerr + question list" where
  "parse_loop unescape entry_ids label_map [] eid_idx questions = Inr questions"
| "parse_loop unescape entry_ids label_map (it # items) eid_idx questions =
     (if \<not> is_list it then parse_loop unescape entry_ids label_map items eid_idx questions
      else
        bind_err (item_text it) (\<lambda>found.
          case found of
            None \<Rightarrow> parse_loop unescape entry_ids label_map items eid_idx questions
          | Some txt \<Rightarrow>
              bind_err (make_question unescape entry_ids label_map eid_idx it txt) (\<lambda>q.
                parse_loop unescape entry_ids label_map items
                  (if eid_idx < length entry_ids then eid_idx + 1 else eid_idx)
                  (questions @ [q]))))"

text \<open>
  The questions of a document: the items root, then the loop. The markup gives the list
  of entry identifiers and the label map.
\<close>

definition parse_questions ::
  "(pystr \<Rightarrow> pystr) \<Rightarrow> pystr list \<Rightarrow> (pystr \<times> pystr) list \<Rightarrow> node \<Rightarrow> pyerr + question list"
  where
  "parse_questions unescape entry_ids label_map data =
     bind_err (guess_items_root data) (\<lambda>items_raw.
       parse_loop unescape entry_ids label_map items_raw 0 [])"

section \<open>Evaluation rules\<close>

lemmas str_eval = ascii_def norm_text_def py_strip_def py_strip_chars_def py_isspace_def
  py_lower_def lower_cp_def py_isdigit_def digit_cp_def decimal_cp_def py_int_def
  int_max_str_digits_def label_sep_def match_dot_plus_def quote_cp_def


section \<open>Properties of the reconciler\<close>

lemma py_strip_blank: "list_all py_isspace t \<Longrightarrow> py_strip t = []"
  by (simp add: py_strip_def py_strip_chars_def list_all_iff dropWhile_eq_Nil_conv [THEN iffD2])

lemma norm_text_blank: "list_all py_isspace t \<Longrightarrow> norm_text t = []"
  by (simp add: norm_text_def py_strip_blank py_lower_def)



text \<open>
  Claim C10. With a single option whose normalized form is not empty, an empty or
  whitespace-only text is answered with that option: the text normalizes to the empty
  string, which every option contains, so the containment step has exactly one hit.
\<close>

theorem blank_text_single_option:
  assumes "list_all py_isspace t" and "norm_text opt \<noteq> []"
  shows "pick_single_option t [opt] = Inr (Some opt)"
  using assms
  by (simp add: pick_single_option_def norm_text_blank ordinal_step_def py_isdigit_def
      exact_step_def hits_def containment_step_def)

theorem blank_text_single_option_witness:
  "list_all py_isspace (ascii ''  '') \<and> norm_text (ascii ''Yes'') \<noteq> []
   \<and> pick_single_option (ascii ''  '') [ascii ''Yes''] = Inr (Some (ascii ''Yes''))"
  using blank_text_single_option [of "ascii ''  ''" "ascii ''Yes''"]
  by (simp add: str_eval)

subsection \<open>Values of the examples\<close>


subsection \<open>The containment fallback\<close>






subsection \<open>Facts about normalized text\<close>









subsection \<open>The label pattern\<close>










subsection \<open>Resolved values are options\<close>





subsection \<open>The picking loop\<close>






subsection \<open>Splitting a trimmed text\<close>















subsection \<open>Splitting and picking\<close>






section \<open>Properties of the extractor\<close>

subsection \<open>The navigator\<close>

lemma dig_step:
  "dig x (p # ps) =
     (case x of NList xs \<Rightarrow> if 0 \<le> p \<and> p < int (length xs) then dig (xs ! nat p) ps else Inr NNull
      | _ \<Rightarrow> Inr NNull)"
  by (auto simp: py_getitem_def split: node.splits)

lemma dig_never_raises: "\<exists>v. dig x path = Inr v"
proof (induction path arbitrary: x)
  case Nil
  then show ?case by simp
next
  case (Cons p ps)
  show ?case
    unfolding dig_step using Cons.IH by (cases x) auto
qed

text \<open>
  Claim C8. For every document node and every path of indices, \<open>dig\<close> never raises.
  It walks the indices in order: with no index left it returns the node it has reached;
  at a node that is not a list, at a negative index and at an index past the end of the
  list it returns \<^verbatim>\<open>None\<close> at once; otherwise it goes on from the indexed item.
\<close>

theorem dig_absent_never_raises:
  "(\<forall>e. dig x path \<noteq> Inl e)
   \<and> dig x [] = Inr x
   \<and> ((\<forall>xs. x \<noteq> NList xs) \<longrightarrow> dig x (p # ps) = Inr NNull)
   \<and> (x = NList xs \<and> (p < 0 \<or> int (length xs) \<le> p) \<longrightarrow> dig x (p # ps) = Inr NNull)
   \<and> (x = NList xs \<and> 0 \<le> p \<and> p < int (length xs) \<longrightarrow> dig x (p # ps) = dig (xs ! nat p) ps)"
proof (intro conjI impI allI)
  fix e
  show "dig x path \<noteq> Inl e"
    using dig_never_raises [of x path] by auto
next
  show "dig x [] = Inr x" by simp
next
  assume "\<forall>xs. x \<noteq> NList xs"
  then show "dig x (p # ps) = Inr NNull"
    unfolding dig_step by (cases x) auto
next
  assume "x = NList xs \<and> (p < 0 \<or> int (length xs) \<le> p)"
  then show "dig x (p # ps) = Inr NNull"
    unfolding dig_step by auto
next
  assume "x = NList xs \<and> 0 \<le> p \<and> p < int (length xs)"
  then show "dig x (p # ps) = dig (xs ! nat p) ps"
    unfolding dig_step by auto
qed

theorem dig_absent_never_raises_witness:
  "dig (NInt 7) [0] = Inr NNull
   \<and> dig (NList [NInt 1, NList [NStr (ascii ''a'')]]) [5, 0] = Inr NNull
   \<and> dig (NList [NInt 1, NList [NStr (ascii ''a'')]]) [- 1, 0] = Inr NNull
   \<and> dig (NList [NInt 1, NList [NStr (ascii ''a'')]]) [1, 0] = Inr (NStr (ascii ''a''))
   \<and> dig (NList [NInt 1, NList [NStr (ascii ''a'')]]) [1, 0, 0] = Inr NNull"
proof -
  let ?d = "[NInt 1, NList [NStr (ascii ''a'')]]"
  have a: "dig (NInt 7) [0] = Inr NNull"
    using dig_absent_never_raises [where x = "NInt 7" and p = 0 and ps = "[]"] by simp
  have b: "dig (NList ?d) [5, 0] = Inr NNull"
    using dig_absent_never_raises [where x = "NList ?d" and xs = ?d and p = 5 and ps = "[0]"]
    by simp
  have c: "dig (NList ?d) [- 1, 0] = Inr NNull"
    using dig_absent_never_raises [where x = "NList ?d" and xs = ?d and p = "- 1" and ps = "[0]"]
    by simp
  have s: "dig (NStr (ascii ''a'')) [0] = Inr NNull"
    using dig_absent_never_raises [where x = "NStr (ascii ''a'')" and p = 0 and ps = "[]"]
    by simp
  have i0: "dig (NList [NStr (ascii ''a'')]) [0] = Inr (NStr (ascii ''a''))"
    using dig_absent_never_raises [where x = "NList [NStr (ascii ''a'')]"
        and xs = "[NStr (ascii ''a'')]" and p = 0 and ps = "[]"]
      dig_absent_never_raises [where x = "NStr (ascii ''a'')"]
    by simp
  have i00: "dig (NList [NStr (ascii ''a'')]) [0, 0] = Inr NNull"
    using dig_absent_never_raises [where x = "NList [NStr (ascii ''a'')]"
        and xs = "[NStr (ascii ''a'')]" and p = 0 and ps = "[0]"] s
    by simp
  have d: "dig (NList ?d) [1, 0] = Inr (NStr (ascii ''a''))"
    using dig_absent_never_raises [where x = "NList ?d" and xs = ?d and p = 1 and ps = "[0]"] i0
    by simp
  have e: "dig (NList ?d) [1, 0, 0] = Inr NNull"
    using dig_absent_never_raises [where x = "NList ?d" and xs = ?d and p = 1 and ps = "[0, 0]"]
      i00
    by simp
  from a b c d e show ?thesis by simp
qed

subsection \<open>The items root\<close>








section \<open>Properties of the builder\<close>

lemma pairs_loop_concat:
  "pairs_loop b kvs pairs = pairs @ concat (map (\<lambda>(eid, val). entry_pairs b eid val) kvs)"
  by (induction kvs arbitrary: pairs) auto

lemma entry_pairs_answers [simp]: "entry_pairs (b\<lparr>answers := a\<rparr>) = entry_pairs b"
  by (rule ext)+ (simp add: entry_pairs_def)

lemma ascii_checkboxes_not_single: "ascii ''checkboxes'' \<notin> set single_choice_types"
  by (simp add: single_choice_types_def ascii_def)

text \<open>
  Claim C2. For a checkboxes question with a known entry identifier, with \<open>a\<close> among its
  declared options and \<open>x\<close> not, and with "other" allowed, \<open>set_answer\<close> on the list of
  \<open>a\<close> and \<open>x\<close> stores an "other" record, and \<open>build_pairs\<close> then yields for that question
  the pair of the entry key and the sentinel, the pair of the other-response key and
  \<open>x\<close>, and the pair of the entry key and \<open>a\<close>, in this order; they follow the pairs of
  the answers stored before, and on a builder without answers they are all the pairs after
  the token. The sentinel is \<^verbatim>\<open>__other_option__\<close>, which the question either leaves to the
  default or names itself, as every question of the extractor does.
\<close>

theorem checkbox_other_round_trip:
  assumes "q_by_id b eid = Some q"
    and "py_lower (q_type q) = ascii ''checkboxes''"
    and "a \<in> set (declared_options q)" and "x \<notin> set (declared_options q)"
    and "other_allowed q"
    and "other_value q = None \<or> other_value q = Some other_option_sentinel"
    and "b' = snd (set_answer b eid (Plain (PList [SStr a, SStr x])))"
    and "okey = (case other_response_key q of
                   None \<Rightarrow> other_key_of eid
                 | Some k \<Rightarrow> if k \<noteq> [] then k else other_key_of eid)"
    and "token = (if fbzx b \<noteq> [] then [(ascii ''fbzx'', fbzx b)] else [])"
  shows "fst (set_answer b eid (Plain (PList [SStr a, SStr x]))) = None
       \<and> answers b' = dict_set eid (AnsOther x (Some [a])) (answers b)
       \<and> entry_pairs b' eid (AnsOther x (Some [a]))
           = [(entry_key eid, other_option_sentinel), (okey, x), (entry_key eid, a)]
       \<and> build_pairs b' =
           (action b, token @ concat (map (\<lambda>(e, v). entry_pairs b' e v) (answers b')))
       \<and> (answers b = [] \<longrightarrow>
            build_pairs b' =
              (action b,
               token @ [(entry_key eid, other_option_sentinel), (okey, x), (entry_key eid, a)]))"
proof -
  have sa: "set_answer b eid (Plain (PList [SStr a, SStr x]))
        = store b eid (AnsOther x (Some [a]))"
    using assms(1-5)
    by (simp add: set_answer_def Let_def ascii_checkboxes_not_single)
  then have b': "b' = b\<lparr>answers := dict_set eid (AnsOther x (Some [a])) (answers b)\<rparr>"
    using assms(7) by (simp add: store_def)
  have ep: "entry_pairs b eid (AnsOther x (Some [a]))
           = [(entry_key eid, other_option_sentinel), (okey, x), (entry_key eid, a)]"
    using assms(1,6,8) by (auto simp: entry_pairs_def Let_def split: option.splits)
  show ?thesis
  proof (intro conjI impI)
    show "fst (set_answer b eid (Plain (PList [SStr a, SStr x]))) = None"
      by (simp add: sa store_def)
    show "answers b' = dict_set eid (AnsOther x (Some [a])) (answers b)"
      by (simp add: b')
    show "entry_pairs b' eid (AnsOther x (Some [a]))
           = [(entry_key eid, other_option_sentinel), (okey, x), (entry_key eid, a)]"
      by (simp add: b' ep)
    show "build_pairs b' =
           (action b, token @ concat (map (\<lambda>(e, v). entry_pairs b' e v) (answers b')))"
      by (simp add: build_pairs_def b' assms(9) pairs_loop_concat)
    assume "answers b = []"
    then show "build_pairs b' =
              (action b,
               token @ [(entry_key eid, other_option_sentinel), (okey, x), (entry_key eid, a)])"
      by (simp add: build_pairs_def b' ep assms(9))
  qed
qed

lemma builder_examples:
  "ascii ''A'' \<noteq> ascii ''X''" "ascii ''B'' \<noteq> ascii ''X''"
  "ascii ''Yes'' \<noteq> ascii ''Maybe''" "ascii ''No'' \<noteq> ascii ''Maybe''"
  "ascii ''555'' \<noteq> []"
  "py_lower (ascii ''checkboxes'') = ascii ''checkboxes''"
  "py_lower (ascii ''multiple_choice'') = ascii ''multiple_choice''"
  "entry_key (ascii ''555'') = ascii ''entry.555''"
  "other_key_of (ascii ''555'') = ascii ''entry.555.other_option_response''"
  "other_option_sentinel = ascii ''__other_option__''"
  by (simp_all add: ascii_def py_lower_def lower_cp_def entry_key_def other_key_of_def
      other_option_sentinel_def)

theorem checkbox_other_round_trip_witness:
  "build_pairs (snd (set_answer
      (new_builder (ascii ''u'') []
         [\<lparr>q_text = ascii ''Q'', q_type = ascii ''checkboxes'', required = None,
           choices_or_rows = Some [ascii ''A'', ascii ''B''], columns = None,
           entry_id = Some (ascii ''555''), other_allowed = True,
           other_value = Some (ascii ''__other_option__''),
           other_response_key = Some (ascii ''entry.555.other_option_response'')\<rparr>] True)
      (ascii ''555'') (Plain (PList [SStr (ascii ''A''), SStr (ascii ''X'')]))))
   = (ascii ''u'',
      [(ascii ''entry.555'', ascii ''__other_option__''),
       (ascii ''entry.555.other_option_response'', ascii ''X''),
       (ascii ''entry.555'', ascii ''A'')])"
proof -
  let ?q = "\<lparr>q_text = ascii ''Q'', q_type = ascii ''checkboxes'', required = None,
           choices_or_rows = Some [ascii ''A'', ascii ''B''], columns = None,
           entry_id = Some (ascii ''555''), other_allowed = True,
           other_value = Some (ascii ''__other_option__''),
           other_response_key = Some (ascii ''entry.555.other_option_response'')\<rparr>"
  let ?b = "new_builder (ascii ''u'') [] [?q] True"
  have h1: "q_by_id ?b (ascii ''555'') = Some ?q"
    by (simp add: new_builder_def builder_examples)
  have h2: "py_lower (q_type ?q) = ascii ''checkboxes''"
    by (simp add: builder_examples)
  have h3: "ascii ''A'' \<in> set (declared_options ?q)" "ascii ''X'' \<notin> set (declared_options ?q)"
    by (simp_all add: declared_options_def ascii_def)
  have h4: "other_allowed ?q" by simp
  have h5: "other_value ?q = None \<or> other_value ?q = Some other_option_sentinel"
    by (simp add: builder_examples)
  have e: "answers ?b = []" "fbzx ?b = []" "action ?b = ascii ''u''"
    by (simp_all add: new_builder_def)
  have ne: "ascii ''entry.555.other_option_response'' \<noteq> []" by (simp add: ascii_def)
  from checkbox_other_round_trip [OF h1 h2 h3 h4 h5 refl refl refl] e ne
  show ?thesis by (simp add: builder_examples)
qed

text \<open>
  Claim C4. For a multiple-choice or dropdown question with a known entry identifier that
  does not allow "other", \<open>set_answer\<close> on a string that is not a declared option raises
  in strict mode and returns without an error in lenient mode; in both modes the builder,
  and with it the stored answers, is what it was before the call.
\<close>

theorem undeclared_choice_rejected:
  assumes "q_by_id b eid = Some q"
    and "py_lower (q_type q) = ascii ''multiple_choice'' \<or> py_lower (q_type q) = ascii ''dropdown''"
    and "v \<notin> set (declared_options q)"
    and "\<not> other_allowed q"
  shows "(strict b \<longrightarrow> set_answer b eid (Plain (Scalar (SStr v))) = (Some ValueError, b))
       \<and> (\<not> strict b \<longrightarrow> set_answer b eid (Plain (Scalar (SStr v))) = (None, b))"
  using assms
  by (auto simp: set_answer_def Let_def single_choice_types_def reject_def)

theorem undeclared_choice_rejected_witness:
  "set_answer
      (new_builder (ascii ''u'') []
         [\<lparr>q_text = ascii ''Q'', q_type = ascii ''multiple_choice'', required = None,
           choices_or_rows = Some [ascii ''Yes'', ascii ''No''], columns = None,
           entry_id = Some (ascii ''555''), other_allowed = False,
           other_value = None, other_response_key = None\<rparr>] True)
      (ascii ''555'') (Plain (Scalar (SStr (ascii ''Maybe''))))
   = (Some ValueError,
      new_builder (ascii ''u'') []
         [\<lparr>q_text = ascii ''Q'', q_type = ascii ''multiple_choice'', required = None,
           choices_or_rows = Some [ascii ''Yes'', ascii ''No''], columns = None,
           entry_id = Some (ascii ''555''), other_allowed = False,
           other_value = None, other_response_key = None\<rparr>] True)
   \<and> set_answer
      (new_builder (ascii ''u'') []
         [\<lparr>q_text = ascii ''Q'', q_type = ascii ''multiple_choice'', required = None,
           choices_or_rows = Some [ascii ''Yes'', ascii ''No''], columns = None,
           entry_id = Some (ascii ''555''), other_allowed = False,
           other_value = None, other_response_key = None\<rparr>] False)
      (ascii ''555'') (Plain (Scalar (SStr (ascii ''Maybe''))))
   = (None,
      new_builder (ascii ''u'') []
         [\<lparr>q_text = ascii ''Q'', q_type = ascii ''multiple_choice'', required = None,
           choices_or_rows = Some [ascii ''Yes'', ascii ''No''], columns = None,
           entry_id = Some (ascii ''555''), other_allowed = False,
           other_value = None, other_response_key = None\<rparr>] False)"
proof -
  let ?q = "\<lparr>q_text = ascii ''Q'', q_type = ascii ''multiple_choice'', required = None,
           choices_or_rows = Some [ascii ''Yes'', ascii ''No''], columns = None,
           entry_id = Some (ascii ''555''), other_allowed = False,
           other_value = None, other_response_key = None\<rparr>"
  have h1: "q_by_id (new_builder (ascii ''u'') [] [?q] m) (ascii ''555'') = Some ?q" for m
    by (simp add: new_builder_def builder_examples)
  have h2: "py_lower (q_type ?q) = ascii ''multiple_choice''
      \<or> py_lower (q_type ?q) = ascii ''dropdown''"
    by (simp add: builder_examples)
  have h3: "ascii ''Maybe'' \<notin> set (declared_options ?q)"
    by (simp add: declared_options_def ascii_def)
  have h4: "\<not> other_allowed ?q" by simp
  have s: "strict (new_builder (ascii ''u'') [] [?q] m) = m" for m
    by (simp add: new_builder_def)
  from undeclared_choice_rejected [OF h1 h2 h3 h4, of True]
    undeclared_choice_rejected [OF h1 h2 h3 h4, of False]
  show ?thesis by (simp add: s)
qed

subsection \<open>The extraction returns\<close>

lemma bind_err_dig: "bind_err (dig x p) f = f (projr (dig x p))"
  using dig_never_raises [of x p] by (auto simp: bind_err_def)

lemma item_text_returns: "\<exists>v. item_text it = Inr v"
  by (simp add: item_text_def bind_err_dig del: dig.simps split: option.splits)

lemma extract_choices_returns: "\<exists>v. extract_choices it = Inr v"
  by (simp add: extract_choices_def bind_err_dig Let_def del: dig.simps split: option.splits)

lemma question_type_returns: "\<exists>v. question_type it = Inr v"
proof -
  obtain ch where ch: "extract_choices it = Inr ch" using extract_choices_returns by blast
  have "bind_err (extract_choices it) f = f ch" for f :: "_ \<Rightarrow> pyerr + pystr"
    by (simp add: bind_err_def ch)
  then show ?thesis
    by (cases ch) (simp add: question_type_def bind_err_dig del: dig.simps split: option.splits)
qed

lemma is_required_returns: "\<exists>v. is_required it = Inr v"
  by (simp add: is_required_def bind_err_dig del: dig.simps split: option.splits)

lemma id_paths_returns: "\<exists>v. id_paths it paths = Inr v"
  by (induction paths) (auto simp: bind_err_dig simp del: dig.simps split: option.splits)

lemma extract_entry_id_returns: "\<exists>v. extract_entry_id_from_item_fb it = Inr v"
  using id_paths_returns [of it "[[4, 0, 0], [4, 0, 3, 0], [4, 0, 0, 0], [0]]"]
  by (auto simp: extract_entry_id_from_item_fb_def bind_err_def split: option.splits)

lemma assign_entry_id_returns: "\<exists>v. assign_entry_id entry_ids label_map idx it t = Inr v"
  using extract_entry_id_returns [of it]
  by (auto simp: assign_entry_id_def Let_def)

lemma make_question_returns:
  "\<exists>q. make_question unescape entry_ids label_map idx it t = Inr q"
proof -
  obtain ty where ty: "question_type it = Inr ty" using question_type_returns by blast
  obtain rq where rq: "is_required it = Inr rq" using is_required_returns by blast
  obtain ch where ch: "extract_choices it = Inr ch" using extract_choices_returns by blast
  obtain e where e: "assign_entry_id entry_ids label_map idx it (unescape t) = Inr e"
    using assign_entry_id_returns by blast
  show ?thesis
    by (cases ch) (simp add: make_question_def bind_err_def ty rq ch e)
qed

lemma parse_loop_returns:
  "\<exists>res. parse_loop unescape entry_ids label_map items idx qs = Inr res"
proof (induction items arbitrary: idx qs)
  case Nil
  then show ?case by simp
next
  case (Cons it items)
  obtain found where f: "item_text it = Inr found" using item_text_returns by blast
  show ?case
  proof (cases found)
    case None
    with f Cons show ?thesis by (simp add: bind_err_def)
  next
    case (Some t)
    obtain q where q: "make_question unescape entry_ids label_map idx it t = Inr q"
      using make_question_returns by blast
    with f Some Cons show ?thesis by (simp add: bind_err_def)
  qed
qed

lemma parse_questions_returns:
  "guess_items_root data = Inr items \<Longrightarrow>
   \<exists>qs. parse_questions unescape entry_ids label_map data = Inr qs"
  using parse_loop_returns [of unescape entry_ids label_map items 0 "[]"]
  by (simp add: parse_questions_def bind_err_def)

subsection \<open>Blank options\<close>




lemma mark_other_type [simp]: "q_type (mark_other raw) = q_type raw"
  by (simp add: mark_other_def Let_def)

lemma mark_other_entry_id [simp]: "entry_id (mark_other raw) = entry_id raw"
  by (simp add: mark_other_def Let_def)


subsection \<open>Two documents\<close>










end
